theory Spec2Isabelle
  imports Main "HOL-Library.Sublist"
begin

section \<open>The ad-hoc query gateway: \<open>handlers.RunQuery\<close>\<close>

text \<open>
  The handler \<open>RunQuery\<close> is one linear function: bind the JSON body, trim the SQL
  text, parse it, admit only \<open>*sqlparser.Select\<close>, append a row ceiling when the text
  does not mention \<open>LIMIT\<close>, run the text, and turn every cursor row into a map from
  column name to value. Everything it calls outside the repository (the JSON decoder of
  gin, the vitess parser, the \<open>database/sql\<close> handle, the Unicode paths of package
  \<open>strings\<close>) is a field of the environment record \<open>Env\<close>; the ASCII paths of
  \<open>strings.TrimSpace\<close> and \<open>strings.ToUpper\<close> and the \<open>Scan\<close> arity check are
  written out. Calls that leave the handler are recorded in a trace, so that "the parser
  is never invoked" and "no SQL is submitted" are statements about that trace.
\<close>

subsection \<open>Data\<close>

text \<open>\<open>type QueryRequest struct { SQL string `json:"sql"` }\<close>\<close>

record QueryRequest =
  SQL :: string

text \<open>
  The dynamic type of the \<open>sqlparser.Statement\<close> returned by the parser. The handler's
  type switch looks at nothing else. \<open>OtherStatement\<close> stands for any further
  implementation of the interface.
\<close>

datatype Statement =
    Select
  | UnionStmt
  | ParenSelect
  | Insert
  | Update
  | Delete
  | SetStmt
  | DDL
  | Show
  | Use
  | OtherRead
  | OtherAdmin
  | OtherStatement string

text \<open>
  A cell as \<open>Scan\<close> leaves it in an \<open>interface{}\<close>: \<open>nil\<close> for SQL NULL, or a
  driver value.
\<close>

datatype val =
    VNil
  | VBool bool
  | VInt int
  | VText string
  | VBytes string
  | VOther string

text \<open>
  What \<open>c.JSON\<close> writes: \<open>gin.H{"error": msg}\<close> or
  \<open>gin.H{"columns": cols, "rows": result}\<close>, where each row is a
  \<open>map[string]interface{}\<close>.
\<close>

datatype Body =
    ErrorBody string
  | ResultBody "string list" "(string \<rightharpoonup> val) list"

record Response =
  status :: nat
  body :: Body

definition StatusOK :: nat where
  "StatusOK = 200"

definition StatusBadRequest :: nat where
  "StatusBadRequest = 400"

definition StatusInternalServerError :: nat where
  "StatusInternalServerError = 500"

text \<open>
  The cursor \<open>*sql.Rows\<close>: \<open>columns\<close> is what \<open>rows.Columns()\<close> returns
  (\<open>Inl\<close> its error); \<open>stream\<close> lists, in order, the rows for which \<open>rows.Next()\<close>
  is true, each either the error that \<open>Scan\<close> reports for it or the values the driver
  delivers; \<open>iterErr\<close> is \<open>rows.Err()\<close> once \<open>Next\<close> has returned false.
\<close>

record Rows =
  columns :: "string + string list"
  stream :: "(string + val list) list"
  iterErr :: "string option"

text \<open>
  The collaborators. \<open>bindJSON\<close> is \<open>c.BindJSON(&req)\<close> on the request body
  (\<open>None\<close> when it returns an error). \<open>trimFuncSpace\<close>, \<open>trimRightFuncSpace\<close> and
  \<open>mapToUpper\<close> are the calls \<open>TrimFunc(s, unicode.IsSpace)\<close>,
  \<open>TrimRightFunc(s, unicode.IsSpace)\<close> and \<open>Map(unicode.ToUpper, s)\<close> that package
  \<open>strings\<close> falls back to at the first byte outside ASCII. \<open>Parse\<close> is
  \<open>sqlparser.Parse\<close> (\<open>Inl\<close> the text of its error) and \<open>Query\<close> is \<open>h.db.Query\<close>.
\<close>

record Env =
  bindJSON :: "string \<Rightarrow> QueryRequest option"
  trimFuncSpace :: "string \<Rightarrow> string"
  trimRightFuncSpace :: "string \<Rightarrow> string"
  mapToUpper :: "string \<Rightarrow> string"
  Parse :: "string \<Rightarrow> string + Statement"
  Query :: "string \<Rightarrow> string + Rows"

datatype event =
    ParseCall string
  | QueryCall string
  | RowsClose

record Outcome =
  response :: Response
  trace :: "event list"

definition parsed :: "event list \<Rightarrow> string list" where
  "parsed evs = concat (map (\<lambda>e. case e of ParseCall t \<Rightarrow> [t] | _ \<Rightarrow> []) evs)"

definition submitted :: "event list \<Rightarrow> string list" where
  "submitted evs = concat (map (\<lambda>e. case e of QueryCall q \<Rightarrow> [q] | _ \<Rightarrow> []) evs)"

subsection \<open>Package \<open>strings\<close>\<close>

text \<open>Bytes below \<open>utf8.RuneSelf\<close> (0x80).\<close>

definition isASCII :: "char \<Rightarrow> bool" where
  "isASCII c \<longleftrightarrow> (of_char c :: nat) < 128"

text \<open>The table \<open>asciiSpace\<close>: tab, line feed, vertical tab, form feed, carriage return, space.\<close>

definition asciiSpace :: "char \<Rightarrow> bool" where
  "asciiSpace c \<longleftrightarrow> (of_char c :: nat) \<in> {9, 10, 11, 12, 13, 32}"

text \<open>
  The second loop of \<open>TrimSpace\<close>, walking back from the end; its argument is the
  remaining text reversed.
\<close>

fun trimStop :: "Env \<Rightarrow> string \<Rightarrow> string" where
  "trimStop env [] = []"
| "trimStop env (c # r) =
     (if \<not> isASCII c then trimRightFuncSpace env (rev (c # r))
      else if asciiSpace c then trimStop env r
      else rev (c # r))"

text \<open>The first loop of \<open>TrimSpace\<close>, walking forward from the start.\<close>

fun trimStart :: "Env \<Rightarrow> string \<Rightarrow> string" where
  "trimStart env [] = trimStop env []"
| "trimStart env (c # s) =
     (if \<not> isASCII c then trimFuncSpace env (c # s)
      else if asciiSpace c then trimStart env s
      else trimStop env (rev (c # s)))"

definition TrimSpace :: "Env \<Rightarrow> string \<Rightarrow> string" where
  "TrimSpace env s = trimStart env s"

text \<open>\<open>c -= 'a' - 'A'\<close> for \<open>'a' <= c && c <= 'z'\<close>.\<close>

definition upperASCII :: "char \<Rightarrow> char" where
  "upperASCII c =
     (if 97 \<le> (of_char c :: nat) \<and> (of_char c :: nat) \<le> 122
      then char_of ((of_char c :: nat) - 32) else c)"

definition ToUpper :: "Env \<Rightarrow> string \<Rightarrow> string" where
  "ToUpper env s = (if list_all isASCII s then map upperASCII s else mapToUpper env s)"

text \<open>\<open>strings.Contains(s, substr)\<close>: \<open>substr\<close> starts at some index of \<open>s\<close>.\<close>

fun Contains :: "string \<Rightarrow> string \<Rightarrow> bool" where
  "Contains [] substr = (substr = [])"
| "Contains (c # s) substr = (take (length substr) (c # s) = substr \<or> Contains s substr)"

subsection \<open>Package \<open>database/sql\<close>: \<open>Scan\<close>\<close>

definition digit :: "nat \<Rightarrow> char" where
  "digit n = char_of (48 + n)"

fun itoa :: "nat \<Rightarrow> string" where
  "itoa n = (if n < 10 then [digit n] else itoa (n div 10) @ [digit (n mod 10)])"

text \<open>
  \<open>rows.Scan(ptrs...)\<close> with \<open>n\<close> destinations of type \<open>*interface{}\<close>: the error of
  the row if it has one, the arity error if the driver's row has another number of
  values, and otherwise every value stored as it is.
\<close>

definition Scan :: "nat \<Rightarrow> string + val list \<Rightarrow> string + val list" where
  "Scan n r =
     (case r of
        Inl err \<Rightarrow> Inl err
      | Inr vs \<Rightarrow>
          if length vs \<noteq> n
          then Inl (''sql: expected '' @ itoa (length vs) @
                    '' destination arguments in Scan, not '' @ itoa n)
          else Inr vs)"

subsection \<open>The handler\<close>

text \<open>\<open>c.JSON(code, gin.H{"error": msg}); return\<close> after the calls \<open>evs\<close>.\<close>

definition abortWith :: "nat \<Rightarrow> string \<Rightarrow> event list \<Rightarrow> Outcome" where
  "abortWith code msg evs =
     \<lparr>response = \<lparr>status = code, body = ErrorBody msg\<rparr>, trace = evs\<rparr>"

text \<open>\<open>for i, col := range cols { rowMap[col] = vals[i] }\<close>, from the empty map.\<close>

definition rowMap :: "string list \<Rightarrow> val list \<Rightarrow> (string \<rightharpoonup> val)" where
  "rowMap cols vals = fold (\<lambda>(col, v) m. m(col \<mapsto> v)) (zip cols vals) Map.empty"

text \<open>
  The loop \<open>for rows.Next() { ... }\<close> over the remaining rows, \<open>result\<close> being the
  rows appended so far; \<open>Inl\<close> is the error of the first \<open>Scan\<close> that fails.
\<close>

fun processRows ::
  "string list \<Rightarrow> (string + val list) list \<Rightarrow> (string \<rightharpoonup> val) list
     \<Rightarrow> string + (string \<rightharpoonup> val) list" where
  "processRows cols [] result = Inr result"
| "processRows cols (r # rs) result =
     (case Scan (length cols) r of
        Inl err \<Rightarrow> Inl err
      | Inr vals \<Rightarrow> processRows cols rs (result @ [rowMap cols vals]))"

text \<open>Lines 389 to 392: the row ceiling.\<close>

definition addLimit :: "Env \<Rightarrow> string \<Rightarrow> string" where
  "addLimit env sqlText =
     (if \<not> Contains (ToUpper env sqlText) ''LIMIT'' then sqlText @ '' LIMIT 100''
      else sqlText)"

text \<open>Lines 402 to 439: what is written once \<open>h.db.Query\<close> has returned a cursor.\<close>

definition writeRows :: "Rows \<Rightarrow> Response" where
  "writeRows rows =
     (case columns rows of
        Inl err \<Rightarrow>
          \<lparr>status = StatusInternalServerError,
           body = ErrorBody (''Failed to get columns: '' @ err)\<rparr>
      | Inr cols \<Rightarrow>
          (case processRows cols (stream rows) [] of
             Inl err \<Rightarrow>
               \<lparr>status = StatusInternalServerError,
                body = ErrorBody (''Row scan failed: '' @ err)\<rparr>
           | Inr result \<Rightarrow>
               (case iterErr rows of
                  Some err \<Rightarrow>
                    \<lparr>status = StatusInternalServerError,
                     body = ErrorBody (''Row iteration error: '' @ err)\<rparr>
                | None \<Rightarrow> \<lparr>status = StatusOK, body = ResultBody cols result\<rparr>)))"

text \<open>Lines 394 to 400: submit the text; the deferred \<open>rows.Close()\<close> ends the trace.\<close>

definition execute :: "Env \<Rightarrow> string \<Rightarrow> event list \<Rightarrow> Outcome" where
  "execute env sqlText evs =
     (case Query env sqlText of
        Inl err \<Rightarrow>
          abortWith StatusInternalServerError (''Execution failed: '' @ err)
            (evs @ [QueryCall sqlText])
      | Inr rows \<Rightarrow>
          \<lparr>response = writeRows rows, trace = evs @ [QueryCall sqlText, RowsClose]\<rparr>)"

definition RunQuery :: "Env \<Rightarrow> string \<Rightarrow> Outcome" where
  "RunQuery env reqBody =
     (case bindJSON env reqBody of
        None \<Rightarrow> abortWith StatusBadRequest ''Invalid JSON'' []
      | Some req \<Rightarrow>
          (let sqlText = TrimSpace env (SQL req) in
           if sqlText = [] then abortWith StatusBadRequest ''SQL cannot be empty'' []
           else
             (case Parse env sqlText of
                Inl err \<Rightarrow>
                  abortWith StatusBadRequest (''SQL syntax error: '' @ err) [ParseCall sqlText]
              | Inr stmt \<Rightarrow>
                  (case stmt of
                     Select \<Rightarrow> execute env (addLimit env sqlText) [ParseCall sqlText]
                   | _ \<Rightarrow>
                       abortWith StatusBadRequest ''Only SELECT statements are allowed''
                         [ParseCall sqlText]))))"

subsection \<open>Concrete environments\<close>

text \<open>
  An environment assembled from a decoder, a parser and a database; the Unicode paths
  return their argument. It instantiates the theorems at concrete requests.
\<close>

definition mkEnv ::
  "(string \<Rightarrow> QueryRequest option) \<Rightarrow> (string \<Rightarrow> string + Statement)
     \<Rightarrow> (string \<Rightarrow> string + Rows) \<Rightarrow> Env" where
  "mkEnv b p q =
     \<lparr>bindJSON = b, trimFuncSpace = (\<lambda>s. s), trimRightFuncSpace = (\<lambda>s. s),
      mapToUpper = (\<lambda>s. s), Parse = p, Query = q\<rparr>"

text \<open>A decoder that takes the whole body as the value of the field \<open>sql\<close>.\<close>

definition bindRaw :: "string \<Rightarrow> QueryRequest option" where
  "bindRaw b = Some \<lparr>SQL = b\<rparr>"

text \<open>Environments whose parser gives one fixed answer.\<close>

definition envSelect :: "(string \<Rightarrow> string + Rows) \<Rightarrow> Env" where
  "envSelect db = mkEnv bindRaw (\<lambda>t. Inr Select) db"

definition envStmt :: "Statement \<Rightarrow> Env" where
  "envStmt stmt = mkEnv bindRaw (\<lambda>t. Inr stmt) (\<lambda>q. Inl ''unreachable'')"

definition envSyntaxError :: "string \<Rightarrow> Env" where
  "envSyntaxError msg = mkEnv bindRaw (\<lambda>t. Inl msg) (\<lambda>q. Inl ''unreachable'')"

text \<open>Cursors: one row with one integer column, and a database that answers one text with it.\<close>

definition oneRow :: Rows where
  "oneRow = \<lparr>columns = Inr [''x''], stream = [Inr [VInt 1]], iterErr = None\<rparr>"

definition selectOneDB :: "string \<Rightarrow> string + Rows" where
  "selectOneDB q =
     (if q = ''SELECT 1 AS x LIMIT 100'' then Inr oneRow else Inl ''unexpected statement'')"

text \<open>Two columns of the same name, as \<open>SELECT NULL AS x, 1 AS x\<close> returns them.\<close>

definition dupRows :: Rows where
  "dupRows = \<lparr>columns = Inr [''x'', ''x''], stream = [Inr [VNil, VInt 1]], iterErr = None\<rparr>"

text \<open>A row with a NULL in its second column.\<close>

definition nullRows :: Rows where
  "nullRows =
     \<lparr>columns = Inr [''id'', ''note''], stream = [Inr [VInt 7, VNil]], iterErr = None\<rparr>"

text \<open>A cursor whose second row cannot be scanned, and one that breaks after its first row.\<close>

definition scanFailRows :: Rows where
  "scanFailRows =
     \<lparr>columns = Inr [''id''], stream = [Inr [VInt 1], Inl ''unsupported type''],
      iterErr = None\<rparr>"

definition iterFailRows :: Rows where
  "iterFailRows =
     \<lparr>columns = Inr [''id''], stream = [Inr [VInt 1]], iterErr = Some ''connection reset''\<rparr>"

section \<open>Auxiliary facts\<close>

subsection \<open>Facts about the string functions\<close>

lemma Contains_sublist: "Contains s sub \<longleftrightarrow> sublist sub s"
proof (induction s)
  case Nil
  then show ?case by auto
next
  case (Cons c s)
  have "prefix sub (c # s) \<longleftrightarrow> take (length sub) (c # s) = sub"
    by (metis append_eq_conv_conj prefix_def)
  then show ?case using Cons by (simp add: sublist_Cons_right del: take_Suc_Cons)
qed

lemma asciiSpace_isASCII: "asciiSpace c \<Longrightarrow> isASCII c"
  by (auto simp: asciiSpace_def isASCII_def)

lemma trimStart_asciiSpace: "list_all asciiSpace s \<Longrightarrow> trimStart env s = []"
  by (induction s) (auto simp: asciiSpace_isASCII)

lemma TrimSpace_asciiSpace: "list_all asciiSpace s \<Longrightarrow> TrimSpace env s = []"
  by (simp add: TrimSpace_def trimStart_asciiSpace)

lemma ToUpper_ascii: "list_all isASCII s \<Longrightarrow> ToUpper env s = map upperASCII s"
  by (simp add: ToUpper_def)

lemma addLimit_sublist:
  "addLimit env t = (if sublist ''LIMIT'' (ToUpper env t) then t else t @ '' LIMIT 100'')"
  by (simp add: addLimit_def Contains_sublist)

subsection \<open>The stages of the handler\<close>

lemma RunQuery_empty:
  assumes "bindJSON env reqBody = Some req" and "TrimSpace env (SQL req) = []"
  shows "RunQuery env reqBody = abortWith StatusBadRequest ''SQL cannot be empty'' []"
  using assms by (simp add: RunQuery_def)

lemma RunQuery_syntax_error:
  assumes "bindJSON env reqBody = Some req" and "TrimSpace env (SQL req) = t" and "t \<noteq> []"
    and "Parse env t = Inl err"
  shows "RunQuery env reqBody =
           abortWith StatusBadRequest (''SQL syntax error: '' @ err) [ParseCall t]"
  using assms by (simp add: RunQuery_def)

lemma RunQuery_not_Select:
  assumes "bindJSON env reqBody = Some req" and "TrimSpace env (SQL req) = t" and "t \<noteq> []"
    and "Parse env t = Inr stmt" and "stmt \<noteq> Select"
  shows "RunQuery env reqBody =
           abortWith StatusBadRequest ''Only SELECT statements are allowed'' [ParseCall t]"
  using assms by (cases stmt) (simp_all add: RunQuery_def)

lemma RunQuery_Select:
  assumes "bindJSON env reqBody = Some req" and "TrimSpace env (SQL req) = t" and "t \<noteq> []"
    and "Parse env t = Inr Select"
  shows "RunQuery env reqBody = execute env (addLimit env t) [ParseCall t]"
  using assms by (simp add: RunQuery_def)

lemma submitted_execute: "submitted (trace (execute env q evs)) = submitted evs @ [q]"
  by (simp add: execute_def abortWith_def submitted_def split: sum.splits)

subsection \<open>Facts about the row loop\<close>

lemma Scan_Inr: "Scan n r = Inr vs \<longleftrightarrow> r = Inr vs \<and> length vs = n"
  by (auto simp: Scan_def split: sum.splits if_splits)

lemma processRows_Inr:
  "processRows cols rs acc = Inr res \<Longrightarrow>
     \<exists>vss. rs = map Inr vss \<and> (\<forall>vs\<in>set vss. length vs = length cols)
       \<and> res = acc @ map (rowMap cols) vss"
proof (induction rs arbitrary: acc)
  case Nil
  then show ?case by simp
next
  case (Cons r rs)
  from Cons.prems obtain vals where s: "Scan (length cols) r = Inr vals"
    and rest: "processRows cols rs (acc @ [rowMap cols vals]) = Inr res"
    by (auto split: sum.splits)
  from Cons.IH [OF rest] obtain vss where vss: "rs = map Inr vss"
    "\<forall>vs\<in>set vss. length vs = length cols" "res = (acc @ [rowMap cols vals]) @ map (rowMap cols) vss"
    by blast
  from s have r: "r = Inr vals" "length vals = length cols"
    by (simp_all add: Scan_Inr)
  have "r # rs = map Inr (vals # vss)" using r vss by simp
  moreover have "\<forall>vs\<in>set (vals # vss). length vs = length cols" using r vss by simp
  moreover have "res = acc @ map (rowMap cols) (vals # vss)" using vss by simp
  ultimately show ?case by (intro exI [of _ "vals # vss"] conjI)
qed

lemma processRows_Inl:
  "\<exists>r\<in>set rs. isl (Scan (length cols) r) \<Longrightarrow> isl (processRows cols rs acc)"
proof (induction rs arbitrary: acc)
  case Nil
  then show ?case by simp
next
  case (Cons r rs)
  show ?case
  proof (cases "Scan (length cols) r")
    case (Inl err)
    then show ?thesis by simp
  next
    case (Inr vals)
    with Cons.prems have "\<exists>r\<in>set rs. isl (Scan (length cols) r)" by auto
    from Cons.IH [OF this] Inr show ?thesis by simp
  qed
qed

lemma rowMap_map_of: "rowMap cols vals = map_of (rev (zip cols vals))"
proof -
  have "fold (\<lambda>(col, v) m. m(col \<mapsto> v)) ps m = m ++ map_of (rev ps)" for ps and m :: "string \<rightharpoonup> val"
    by (induction ps arbitrary: m) (auto simp: map_add_def fun_eq_iff split: option.splits)
  then show ?thesis by (simp add: rowMap_def)
qed

lemma dom_rowMap: "length vals = length cols \<Longrightarrow> dom (rowMap cols vals) = set cols"
proof -
  assume len: "length vals = length cols"
  have "fst ` set (zip cols vals) = set (map fst (zip cols vals))" by simp
  also have "\<dots> = set cols" using len by (simp add: map_fst_zip del: set_map)
  finally show ?thesis by (simp add: rowMap_map_of dom_map_of_conv_image_fst)
qed

lemma rowMap_nth:
  assumes "length vals = length cols" and "i < length cols"
    and "cols ! i \<notin> set (drop (Suc i) cols)"
  shows "rowMap cols vals (cols ! i) = Some (vals ! i)"
proof -
  let ?ps = "zip cols vals"
  have i: "i < length ?ps" using assms by simp
  have split: "?ps = take i ?ps @ (cols ! i, vals ! i) # drop (Suc i) ?ps"
    using i by (metis id_take_nth_drop nth_zip assms(1,2))
  have later: "cols ! i \<notin> fst ` set (drop (Suc i) ?ps)"
  proof
    assume "cols ! i \<in> fst ` set (drop (Suc i) ?ps)"
    then have "cols ! i \<in> set (map fst (zip (drop (Suc i) cols) (drop (Suc i) vals)))"
      by (simp add: drop_zip)
    then have "cols ! i \<in> set (drop (Suc i) cols)"
      using assms(1) by (simp add: map_fst_zip del: set_map)
    with assms(3) show False by simp
  qed
  have "map_of (rev ?ps) (cols ! i)
          = map_of (rev (drop (Suc i) ?ps) @ (cols ! i, vals ! i) # rev (take i ?ps)) (cols ! i)"
    by (subst split) simp
  also have "\<dots> = Some (vals ! i)"
  proof -
    have "map_of (rev (drop (Suc i) ?ps)) (cols ! i) = None"
      using later by (simp add: map_of_eq_None_iff)
    then show ?thesis by (simp add: map_of_append map_add_def)
  qed
  finally show ?thesis by (simp add: rowMap_map_of)
qed

lemma RunQuery_ResultBody:
  assumes "body (response (RunQuery env reqBody)) = ResultBody cols result"
  shows "\<exists>req rows. bindJSON env reqBody = Some req \<and> TrimSpace env (SQL req) \<noteq> []
           \<and> Parse env (TrimSpace env (SQL req)) = Inr Select
           \<and> Query env (addLimit env (TrimSpace env (SQL req))) = Inr rows
           \<and> response (RunQuery env reqBody) = writeRows rows"
  using assms
  by (auto simp: RunQuery_def execute_def abortWith_def Let_def
      split: option.splits sum.splits if_splits Statement.splits)

lemma writeRows_ResultBody:
  assumes "body (writeRows rows) = ResultBody cols result"
  shows "columns rows = Inr cols \<and> processRows cols (stream rows) [] = Inr result
         \<and> iterErr rows = None"
  using assms by (auto simp: writeRows_def split: sum.splits option.splits)

lemma RunQuery_writeRows:
  assumes "bindJSON env reqBody = Some req" and "TrimSpace env (SQL req) = t" and "t \<noteq> []"
    and "Parse env t = Inr Select" and "Query env (addLimit env t) = Inr rows"
  shows "response (RunQuery env reqBody) = writeRows rows"
  using RunQuery_Select [OF assms(1-4)] assms(5) by (simp add: execute_def)


subsection \<open>Facts about the concrete environments\<close>

lemma bindJSON_envSelect: "bindJSON (envSelect db) b = Some \<lparr>SQL = b\<rparr>"
  by (simp add: envSelect_def mkEnv_def bindRaw_def)

lemma bindJSON_envStmt: "bindJSON (envStmt k) b = Some \<lparr>SQL = b\<rparr>"
  by (simp add: envStmt_def mkEnv_def bindRaw_def)

lemma bindJSON_envSyntaxError: "bindJSON (envSyntaxError m) b = Some \<lparr>SQL = b\<rparr>"
  by (simp add: envSyntaxError_def mkEnv_def bindRaw_def)

section \<open>Properties of the gateway\<close>

subsection \<open>Requests that stop before the parser\<close>

text \<open>
  C10. Whenever \<open>BindJSON\<close> fails on the request body, the response is 400 with the
  error "Invalid JSON", and neither the parser nor the database has been called: the
  trace is empty.
\<close>

theorem C10_invalid_json:
  assumes "bindJSON env reqBody = None"
  shows "response (RunQuery env reqBody) =
           \<lparr>status = 400, body = ErrorBody ''Invalid JSON''\<rparr>
         \<and> trace (RunQuery env reqBody) = []"
  using assms by (simp add: RunQuery_def abortWith_def StatusBadRequest_def)

text \<open>
  A body on which the decoder fails.
\<close>

theorem C10_invalid_json_witness:
  "bindJSON (mkEnv (\<lambda>b. None) (\<lambda>t. Inr Select) (\<lambda>q. Inl ''down'')) ''{'' = None
   \<and> response (RunQuery (mkEnv (\<lambda>b. None) (\<lambda>t. Inr Select) (\<lambda>q. Inl ''down'')) ''{'') =
       \<lparr>status = 400, body = ErrorBody ''Invalid JSON''\<rparr>
   \<and> trace (RunQuery (mkEnv (\<lambda>b. None) (\<lambda>t. Inr Select) (\<lambda>q. Inl ''down'')) ''{'') = []"
proof -
  have h: "bindJSON (mkEnv (\<lambda>b. None) (\<lambda>t. Inr Select) (\<lambda>q. Inl ''down'')) ''{'' = None"
    by (simp add: mkEnv_def)
  show ?thesis
    using h C10_invalid_json [OF h] by simp
qed

text \<open>
  C5. When the \<open>sql\<close> field is empty or holds white space only, the response is 400
  with the error "SQL cannot be empty", and neither the parser nor the database has been
  called. White space only means: every byte is one of the six ASCII white-space bytes
  (the empty text included), or, for text with bytes outside ASCII, \<open>TrimSpace\<close>
  leaves nothing of it.
\<close>

theorem C5_empty_sql:
  assumes "bindJSON env reqBody = Some req"
    and "list_all asciiSpace (SQL req) \<or> TrimSpace env (SQL req) = []"
  shows "response (RunQuery env reqBody) =
           \<lparr>status = 400, body = ErrorBody ''SQL cannot be empty''\<rparr>
         \<and> parsed (trace (RunQuery env reqBody)) = []
         \<and> submitted (trace (RunQuery env reqBody)) = []"
proof -
  from assms(2) have "TrimSpace env (SQL req) = []"
    using TrimSpace_asciiSpace by blast
  with assms(1) have "RunQuery env reqBody = abortWith StatusBadRequest ''SQL cannot be empty'' []"
    by (rule RunQuery_empty)
  then show ?thesis
    by (simp add: abortWith_def StatusBadRequest_def parsed_def submitted_def)
qed

text \<open>
  Three blanks.
\<close>

theorem C5_empty_sql_witness:
  "bindJSON (mkEnv bindRaw (\<lambda>t. Inr Select) (\<lambda>q. Inl ''down'')) ''   '' = Some \<lparr>SQL = ''   ''\<rparr>
   \<and> list_all asciiSpace (SQL \<lparr>SQL = ''   ''\<rparr>)
   \<and> response (RunQuery (mkEnv bindRaw (\<lambda>t. Inr Select) (\<lambda>q. Inl ''down'')) ''   '') =
       \<lparr>status = 400, body = ErrorBody ''SQL cannot be empty''\<rparr>
   \<and> parsed (trace (RunQuery (mkEnv bindRaw (\<lambda>t. Inr Select) (\<lambda>q. Inl ''down'')) ''   '')) = []"
proof -
  have b: "bindJSON (mkEnv bindRaw (\<lambda>t. Inr Select) (\<lambda>q. Inl ''down'')) ''   ''
             = Some \<lparr>SQL = ''   ''\<rparr>"
    by (simp add: mkEnv_def bindRaw_def)
  have w: "list_all asciiSpace (SQL \<lparr>SQL = ''   ''\<rparr>)"
    by (simp add: asciiSpace_def)
  show ?thesis
    using b w C5_empty_sql [OF b disjI1 [OF w]] by simp
qed

subsection \<open>Requests that stop at the parser or at the type switch\<close>

text \<open>
  C9. When the trimmed text is not empty and the parser returns an error, the
  response is 400 with the error "SQL syntax error: " followed by the parser's message, and
  no text has been submitted to the database.
\<close>

theorem C9_syntax_error:
  assumes "bindJSON env reqBody = Some req" and "TrimSpace env (SQL req) = t" and "t \<noteq> []"
    and "Parse env t = Inl err"
  shows "response (RunQuery env reqBody) =
           \<lparr>status = 400, body = ErrorBody (''SQL syntax error: '' @ err)\<rparr>
         \<and> submitted (trace (RunQuery env reqBody)) = []"
  using RunQuery_syntax_error [OF assms]
  by (simp add: abortWith_def StatusBadRequest_def submitted_def)

text \<open>
  A misspelt keyword, with a parser that rejects it.
\<close>

theorem C9_syntax_error_witness:
  "bindJSON (envSyntaxError ''syntax error at position 6 near selec'') ''selec 1''
     = Some \<lparr>SQL = ''selec 1''\<rparr>
   \<and> TrimSpace (envSyntaxError ''syntax error at position 6 near selec'')
       (SQL \<lparr>SQL = ''selec 1''\<rparr>) = ''selec 1''
   \<and> Parse (envSyntaxError ''syntax error at position 6 near selec'') ''selec 1''
       = Inl ''syntax error at position 6 near selec''
   \<and> response (RunQuery (envSyntaxError ''syntax error at position 6 near selec'') ''selec 1'') =
       \<lparr>status = 400,
        body = ErrorBody ''SQL syntax error: syntax error at position 6 near selec''\<rparr>
   \<and> submitted (trace (RunQuery (envSyntaxError ''syntax error at position 6 near selec'')
       ''selec 1'')) = []"
proof -
  let ?E = "envSyntaxError ''syntax error at position 6 near selec''"
  have b: "bindJSON ?E ''selec 1'' = Some \<lparr>SQL = ''selec 1''\<rparr>"
    by (rule bindJSON_envSyntaxError)
  have t: "TrimSpace ?E (SQL \<lparr>SQL = ''selec 1''\<rparr>) = ''selec 1''"
    by (simp add: TrimSpace_def isASCII_def asciiSpace_def)
  have n: "''selec 1'' \<noteq> []" by simp
  have p: "Parse ?E ''selec 1'' = Inl ''syntax error at position 6 near selec''"
    by (simp add: envSyntaxError_def mkEnv_def)
  show ?thesis
    using b t p C9_syntax_error [OF b t n p] by simp
qed

text \<open>
  C2. When the parser returns a statement whose type is not \<open>*sqlparser.Select\<close>
  (an insert, update, delete, DDL, union or any other statement), the response is 400 with
  the error "Only SELECT statements are allowed", and no text has been submitted to the
  database.
\<close>

theorem C2_only_select:
  assumes "bindJSON env reqBody = Some req" and "TrimSpace env (SQL req) = t" and "t \<noteq> []"
    and "Parse env t = Inr stmt" and "stmt \<noteq> Select"
  shows "response (RunQuery env reqBody) =
           \<lparr>status = 400, body = ErrorBody ''Only SELECT statements are allowed''\<rparr>
         \<and> submitted (trace (RunQuery env reqBody)) = []"
  using RunQuery_not_Select [OF assms]
  by (simp add: abortWith_def StatusBadRequest_def submitted_def)

text \<open>
  A delete statement.
\<close>

theorem C2_only_select_witness:
  "bindJSON (envStmt Delete) ''delete from users'' = Some \<lparr>SQL = ''delete from users''\<rparr>
   \<and> TrimSpace (envStmt Delete) (SQL \<lparr>SQL = ''delete from users''\<rparr>) = ''delete from users''
   \<and> Parse (envStmt Delete) ''delete from users'' = Inr Delete
   \<and> Delete \<noteq> Select
   \<and> response (RunQuery (envStmt Delete) ''delete from users'') =
       \<lparr>status = 400, body = ErrorBody ''Only SELECT statements are allowed''\<rparr>
   \<and> submitted (trace (RunQuery (envStmt Delete) ''delete from users'')) = []"
proof -
  have b: "bindJSON (envStmt Delete) ''delete from users'' = Some \<lparr>SQL = ''delete from users''\<rparr>"
    by (rule bindJSON_envStmt)
  have t: "TrimSpace (envStmt Delete) (SQL \<lparr>SQL = ''delete from users''\<rparr>) = ''delete from users''"
    by (simp add: TrimSpace_def isASCII_def asciiSpace_def)
  have n: "''delete from users'' \<noteq> []" by simp
  have p: "Parse (envStmt Delete) ''delete from users'' = Inr Delete"
    by (simp add: envStmt_def mkEnv_def)
  have k: "Delete \<noteq> Select" by simp
  show ?thesis
    using b t p k C2_only_select [OF b t n p k] by simp
qed

subsection \<open>The row ceiling\<close>

text \<open>
  C1. When the trimmed text is not empty and parses as a \<open>Select\<close>, exactly one
  text is submitted to the database: the trimmed text followed by \<open>" LIMIT 100"\<close> if
  the five characters \<open>LIMIT\<close> occur nowhere in the upper-cased text, and the trimmed
  text itself if they occur somewhere. "Token" is read as this character sequence, as the
  handler's test is \<open>strings.Contains\<close>; \<open>sublist\<close> is the library's notion of a
  contiguous occurrence.
\<close>

theorem C1_limit_injection:
  assumes "bindJSON env reqBody = Some req" and "TrimSpace env (SQL req) = t" and "t \<noteq> []"
    and "Parse env t = Inr Select"
  shows "(\<not> sublist ''LIMIT'' (ToUpper env t) \<longrightarrow>
            submitted (trace (RunQuery env reqBody)) = [t @ '' LIMIT 100''])
         \<and> (sublist ''LIMIT'' (ToUpper env t) \<longrightarrow>
            submitted (trace (RunQuery env reqBody)) = [t])"
  using RunQuery_Select [OF assms]
  by (simp add: submitted_execute addLimit_sublist) (simp add: submitted_def)

text \<open>
  One text without the keyword, one with it in lower case.
\<close>

theorem C1_limit_injection_witness:
  "bindJSON (envSelect selectOneDB) '' SELECT 1 AS x '' = Some \<lparr>SQL = '' SELECT 1 AS x ''\<rparr>
   \<and> TrimSpace (envSelect selectOneDB) (SQL \<lparr>SQL = '' SELECT 1 AS x ''\<rparr>) = ''SELECT 1 AS x''
   \<and> Parse (envSelect selectOneDB) ''SELECT 1 AS x'' = Inr Select
   \<and> \<not> sublist ''LIMIT'' (ToUpper (envSelect selectOneDB) ''SELECT 1 AS x'')
   \<and> submitted (trace (RunQuery (envSelect selectOneDB) '' SELECT 1 AS x '')) =
       [''SELECT 1 AS x LIMIT 100'']
   \<and> bindJSON (envSelect selectOneDB) ''select 1 limit 5'' = Some \<lparr>SQL = ''select 1 limit 5''\<rparr>
   \<and> TrimSpace (envSelect selectOneDB) (SQL \<lparr>SQL = ''select 1 limit 5''\<rparr>) = ''select 1 limit 5''
   \<and> Parse (envSelect selectOneDB) ''select 1 limit 5'' = Inr Select
   \<and> sublist ''LIMIT'' (ToUpper (envSelect selectOneDB) ''select 1 limit 5'')
   \<and> submitted (trace (RunQuery (envSelect selectOneDB) ''select 1 limit 5'')) =
       [''select 1 limit 5'']"
proof -
  let ?E = "envSelect selectOneDB"
  have b1: "bindJSON ?E '' SELECT 1 AS x '' = Some \<lparr>SQL = '' SELECT 1 AS x ''\<rparr>"
    by (rule bindJSON_envSelect)
  have t1: "TrimSpace ?E (SQL \<lparr>SQL = '' SELECT 1 AS x ''\<rparr>) = ''SELECT 1 AS x''"
    by (simp add: TrimSpace_def isASCII_def asciiSpace_def)
  have n1: "''SELECT 1 AS x'' \<noteq> []" by simp
  have p1: "Parse ?E ''SELECT 1 AS x'' = Inr Select"
    by (simp add: envSelect_def mkEnv_def)
  have s1: "\<not> sublist ''LIMIT'' (ToUpper ?E ''SELECT 1 AS x'')"
    by code_simp
  have b2: "bindJSON ?E ''select 1 limit 5'' = Some \<lparr>SQL = ''select 1 limit 5''\<rparr>"
    by (rule bindJSON_envSelect)
  have t2: "TrimSpace ?E (SQL \<lparr>SQL = ''select 1 limit 5''\<rparr>) = ''select 1 limit 5''"
    by (simp add: TrimSpace_def isASCII_def asciiSpace_def)
  have n2: "''select 1 limit 5'' \<noteq> []" by simp
  have p2: "Parse ?E ''select 1 limit 5'' = Inr Select"
    by (simp add: envSelect_def mkEnv_def)
  have s2: "sublist ''LIMIT'' (ToUpper ?E ''select 1 limit 5'')"
    by code_simp
  show ?thesis
    using b1 t1 p1 s1 b2 t2 p2 s2
      C1_limit_injection [OF b1 t1 n1 p1] C1_limit_injection [OF b2 t2 n2 p2]
    by simp
qed

subsection \<open>Materialised rows\<close>

text \<open>
  C4. In every response that carries a result, each row map has exactly the
  columns' names as its keys: every column name is a key of the row, and the row has no
  other key.
\<close>

theorem C4_row_keys:
  assumes "body (response (RunQuery env reqBody)) = ResultBody cols result"
  shows "\<forall>row\<in>set result. dom row = set cols"
proof -
  from RunQuery_ResultBody [OF assms] obtain rows
    where "response (RunQuery env reqBody) = writeRows rows" by blast
  with assms have "body (writeRows rows) = ResultBody cols result" by simp
  then have "processRows cols (stream rows) [] = Inr result"
    by (simp add: writeRows_ResultBody)
  from processRows_Inr [OF this] obtain vss
    where len: "\<forall>vs\<in>set vss. length vs = length cols"
      and res: "result = map (rowMap cols) vss" by auto
  show ?thesis
  proof
    fix row assume "row \<in> set result"
    with res obtain vs where "vs \<in> set vss" and "row = rowMap cols vs" by auto
    with len show "dom row = set cols" by (simp add: dom_rowMap)
  qed
qed

text \<open>
  A result of one row with two columns.
\<close>

theorem C4_row_keys_witness:
  "body (response (RunQuery (envSelect (\<lambda>q. Inr nullRows)) ''select id, note from t'')) =
     ResultBody [''id'', ''note''] [Map.empty(''id'' \<mapsto> VInt 7, ''note'' \<mapsto> VNil)]
   \<and> dom (Map.empty(''id'' \<mapsto> VInt 7, ''note'' \<mapsto> VNil)) = set [''id'', ''note'']"
proof -
  have h: "body (response (RunQuery (envSelect (\<lambda>q. Inr nullRows)) ''select id, note from t'')) =
     ResultBody [''id'', ''note''] [Map.empty(''id'' \<mapsto> VInt 7, ''note'' \<mapsto> VNil)]"
    by (simp add: RunQuery_def envSelect_def mkEnv_def bindRaw_def TrimSpace_def isASCII_def
        asciiSpace_def execute_def writeRows_def nullRows_def Scan_def rowMap_def Let_def)
  show ?thesis
    using h C4_row_keys [OF h] by simp
qed

text \<open>
  C6. When the text has been submitted and the cursor has delivered its columns, and
  either \<open>Scan\<close> fails on some row or \<open>rows.Err()\<close> reports an error after the last
  row, the response has status 500 and an error body ("Row scan failed: ..." or
  "Row iteration error: ..."); it is never a result body, so no row decoded before the
  failure reaches the client.
\<close>

theorem C6_no_partial_rows:
  assumes "bindJSON env reqBody = Some req" and "TrimSpace env (SQL req) = t" and "t \<noteq> []"
    and "Parse env t = Inr Select" and "Query env (addLimit env t) = Inr rows"
    and "columns rows = Inr cols"
    and "(\<exists>r\<in>set (stream rows). isl (Scan (length cols) r)) \<or> iterErr rows \<noteq> None"
  shows "status (response (RunQuery env reqBody)) = 500
         \<and> (\<exists>err. body (response (RunQuery env reqBody)) = ErrorBody (''Row scan failed: '' @ err)
                \<or> body (response (RunQuery env reqBody)) =
                    ErrorBody (''Row iteration error: '' @ err))
         \<and> (\<forall>cs rs. body (response (RunQuery env reqBody)) \<noteq> ResultBody cs rs)"
proof -
  have r: "response (RunQuery env reqBody) = writeRows rows"
    using assms(1-5) by (rule RunQuery_writeRows)
  show ?thesis
  proof (cases "processRows cols (stream rows) []")
    case (Inl err)
    with assms(6) have "writeRows rows =
        \<lparr>status = 500, body = ErrorBody (''Row scan failed: '' @ err)\<rparr>"
      by (simp add: writeRows_def StatusInternalServerError_def)
    with r show ?thesis by simp
  next
    case (Inr result)
    have "\<not> (\<exists>r\<in>set (stream rows). isl (Scan (length cols) r))"
      using processRows_Inl [of "stream rows" cols "[]"] Inr by auto
    with assms(7) obtain err where "iterErr rows = Some err" by auto
    with assms(6) Inr have "writeRows rows =
        \<lparr>status = 500, body = ErrorBody (''Row iteration error: '' @ err)\<rparr>"
      by (simp add: writeRows_def StatusInternalServerError_def)
    with r show ?thesis by simp
  qed
qed

text \<open>
  A cursor whose second row fails to scan, and a cursor that breaks after its
  first row: in both the row already decoded is not returned.
\<close>

theorem C6_no_partial_rows_witness:
  "bindJSON (envSelect (\<lambda>q. Inr scanFailRows)) ''select id from t'' =
     Some \<lparr>SQL = ''select id from t''\<rparr>
   \<and> TrimSpace (envSelect (\<lambda>q. Inr scanFailRows)) (SQL \<lparr>SQL = ''select id from t''\<rparr>) =
       ''select id from t''
   \<and> Parse (envSelect (\<lambda>q. Inr scanFailRows)) ''select id from t'' = Inr Select
   \<and> columns scanFailRows = Inr [''id'']
   \<and> (\<exists>r\<in>set (stream scanFailRows). isl (Scan (length [''id'']) r))
   \<and> status (response (RunQuery (envSelect (\<lambda>q. Inr scanFailRows)) ''select id from t'')) = 500
   \<and> body (response (RunQuery (envSelect (\<lambda>q. Inr scanFailRows)) ''select id from t'')) \<noteq>
       ResultBody [''id''] [Map.empty(''id'' \<mapsto> VInt 1)]
   \<and> columns iterFailRows = Inr [''id'']
   \<and> iterErr iterFailRows \<noteq> None
   \<and> status (response (RunQuery (envSelect (\<lambda>q. Inr iterFailRows)) ''select id from t'')) = 500
   \<and> body (response (RunQuery (envSelect (\<lambda>q. Inr iterFailRows)) ''select id from t'')) \<noteq>
       ResultBody [''id''] [Map.empty(''id'' \<mapsto> VInt 1)]"
proof -
  let ?E = "envSelect (\<lambda>q. Inr scanFailRows)"
  let ?F = "envSelect (\<lambda>q. Inr iterFailRows)"
  have b: "bindJSON ?E ''select id from t'' = Some \<lparr>SQL = ''select id from t''\<rparr>"
    by (rule bindJSON_envSelect)
  have t: "TrimSpace ?E (SQL \<lparr>SQL = ''select id from t''\<rparr>) = ''select id from t''"
    by (simp add: TrimSpace_def isASCII_def asciiSpace_def)
  have n: "''select id from t'' \<noteq> []" by simp
  have p: "Parse ?E ''select id from t'' = Inr Select"
    by (simp add: envSelect_def mkEnv_def)
  have q: "Query ?E (addLimit ?E ''select id from t'') = Inr scanFailRows"
    by (simp add: envSelect_def mkEnv_def)
  have c: "columns scanFailRows = Inr [''id'']"
    by (simp add: scanFailRows_def)
  have f: "\<exists>r\<in>set (stream scanFailRows). isl (Scan (length [''id'']) r)"
    by (simp add: scanFailRows_def Scan_def)
  have b': "bindJSON ?F ''select id from t'' = Some \<lparr>SQL = ''select id from t''\<rparr>"
    by (rule bindJSON_envSelect)
  have t': "TrimSpace ?F (SQL \<lparr>SQL = ''select id from t''\<rparr>) = ''select id from t''"
    by (simp add: TrimSpace_def isASCII_def asciiSpace_def)
  have p': "Parse ?F ''select id from t'' = Inr Select"
    by (simp add: envSelect_def mkEnv_def)
  have q': "Query ?F (addLimit ?F ''select id from t'') = Inr iterFailRows"
    by (simp add: envSelect_def mkEnv_def)
  have c': "columns iterFailRows = Inr [''id'']"
    by (simp add: iterFailRows_def)
  have f': "iterErr iterFailRows \<noteq> None"
    by (simp add: iterFailRows_def)
  show ?thesis
    using b t p c f c' f'
      C6_no_partial_rows [OF b t n p q c disjI1 [OF f]]
      C6_no_partial_rows [OF b' t' n p' q' c' disjI2 [OF f']]
    by simp
qed

text \<open>
  C7, as amended. In a response that carries a result, if row \<open>j\<close> of the cursor
  has NULL in column \<open>i\<close>, then the name of column \<open>i\<close> is a key of row map \<open>j\<close>,
  and it is bound to the explicit null provided that no later column has the same name.
  The row map is keyed by column name, so where two columns share a name the value of the
  last one is the one kept.
\<close>

theorem C7_null_cell:
  assumes "bindJSON env reqBody = Some req" and "TrimSpace env (SQL req) = t" and "t \<noteq> []"
    and "Parse env t = Inr Select" and "Query env (addLimit env t) = Inr rows"
    and "body (response (RunQuery env reqBody)) = ResultBody cols result"
    and "j < length (stream rows)" and "stream rows ! j = Inr vs"
    and "i < length vs" and "vs ! i = VNil"
  shows "j < length result \<and> (result ! j) (cols ! i) \<noteq> None
         \<and> (cols ! i \<notin> set (drop (Suc i) cols) \<longrightarrow> (result ! j) (cols ! i) = Some VNil)"
proof -
  have "response (RunQuery env reqBody) = writeRows rows"
    using assms(1-5) by (rule RunQuery_writeRows)
  with assms(6) have "body (writeRows rows) = ResultBody cols result" by simp
  then have "processRows cols (stream rows) [] = Inr result"
    by (simp add: writeRows_ResultBody)
  from processRows_Inr [OF this] obtain vss
    where str: "stream rows = map Inr vss"
      and len: "\<forall>vs\<in>set vss. length vs = length cols"
      and res: "result = map (rowMap cols) vss" by auto
  from str assms(7) have j: "j < length vss" by simp
  with str assms(8) have vs: "vss ! j = vs" by simp
  with j len have l: "length vs = length cols" by auto
  from j res vs have row: "result ! j = rowMap cols vs" by simp
  from l assms(9) have "cols ! i \<in> set cols" by simp
  then have "cols ! i \<in> dom (rowMap cols vs)" using l by (simp add: dom_rowMap)
  then have present: "(result ! j) (cols ! i) \<noteq> None" using row by auto
  have "(result ! j) (cols ! i) = Some VNil" if "cols ! i \<notin> set (drop (Suc i) cols)"
    using rowMap_nth [OF l _ that] assms(9,10) l row by simp
  with present j res show ?thesis by simp
qed

text \<open>
  A row with NULL in the column \<open>note\<close>.
\<close>

theorem C7_null_cell_witness:
  "bindJSON (envSelect (\<lambda>q. Inr nullRows)) ''select id, note from t'' =
     Some \<lparr>SQL = ''select id, note from t''\<rparr>
   \<and> TrimSpace (envSelect (\<lambda>q. Inr nullRows)) (SQL \<lparr>SQL = ''select id, note from t''\<rparr>) =
       ''select id, note from t''
   \<and> Parse (envSelect (\<lambda>q. Inr nullRows)) ''select id, note from t'' = Inr Select
   \<and> body (response (RunQuery (envSelect (\<lambda>q. Inr nullRows)) ''select id, note from t'')) =
       ResultBody [''id'', ''note''] [Map.empty(''id'' \<mapsto> VInt 7, ''note'' \<mapsto> VNil)]
   \<and> (0::nat) < length (stream nullRows)
   \<and> stream nullRows ! 0 = Inr [VInt 7, VNil]
   \<and> (1::nat) < length [VInt 7, VNil]
   \<and> [VInt 7, VNil] ! 1 = VNil
   \<and> [''id'', ''note''] ! 1 \<notin> set (drop (Suc 1) [''id'', ''note''])
   \<and> (0::nat) < length [Map.empty(''id'' \<mapsto> VInt 7, ''note'' \<mapsto> VNil)]
   \<and> ([Map.empty(''id'' \<mapsto> VInt 7, ''note'' \<mapsto> VNil)] ! 0) ([''id'', ''note''] ! 1) = Some VNil"
proof -
  let ?E = "envSelect (\<lambda>q. Inr nullRows)"
  have b: "bindJSON ?E ''select id, note from t'' = Some \<lparr>SQL = ''select id, note from t''\<rparr>"
    by (rule bindJSON_envSelect)
  have t: "TrimSpace ?E (SQL \<lparr>SQL = ''select id, note from t''\<rparr>) = ''select id, note from t''"
    by (simp add: TrimSpace_def isASCII_def asciiSpace_def)
  have n: "''select id, note from t'' \<noteq> []" by simp
  have p: "Parse ?E ''select id, note from t'' = Inr Select"
    by (simp add: envSelect_def mkEnv_def)
  have q: "Query ?E (addLimit ?E ''select id, note from t'') = Inr nullRows"
    by (simp add: envSelect_def mkEnv_def)
  have r: "body (response (RunQuery ?E ''select id, note from t'')) =
             ResultBody [''id'', ''note''] [Map.empty(''id'' \<mapsto> VInt 7, ''note'' \<mapsto> VNil)]"
    by (simp add: RunQuery_def envSelect_def mkEnv_def bindRaw_def TrimSpace_def isASCII_def
        asciiSpace_def execute_def writeRows_def nullRows_def Scan_def rowMap_def Let_def)
  have j: "(0::nat) < length (stream nullRows)"
    by (simp add: nullRows_def)
  have s: "stream nullRows ! 0 = Inr [VInt 7, VNil]"
    by (simp add: nullRows_def)
  have i: "(1::nat) < length [VInt 7, VNil]" by simp
  have v: "[VInt 7, VNil] ! 1 = VNil" by simp
  show ?thesis
    using b t p r j s i v C7_null_cell [OF b t n p q r j s i v] by simp
qed

text \<open>
  The claim as first stated fails for \<open>SELECT NULL AS x, 1 AS x\<close>: the first
  column is NULL, and the row map binds \<open>x\<close> to 1.
\<close>

theorem C7_counterexample:
  "Query (envSelect (\<lambda>q. Inr dupRows)) ''select null as x, 1 as x LIMIT 100'' = Inr dupRows
   \<and> stream dupRows ! 0 = Inr [VNil, VInt 1]
   \<and> [VNil, VInt 1] ! 0 = VNil
   \<and> body (response (RunQuery (envSelect (\<lambda>q. Inr dupRows)) ''select null as x, 1 as x'')) =
       ResultBody [''x'', ''x''] [Map.empty(''x'' \<mapsto> VInt 1)]
   \<and> ([Map.empty(''x'' \<mapsto> VInt 1)] ! 0) ([''x'', ''x''] ! 0) \<noteq> Some VNil"
  by (simp add: RunQuery_def envSelect_def mkEnv_def bindRaw_def TrimSpace_def isASCII_def
      asciiSpace_def execute_def writeRows_def dupRows_def Scan_def rowMap_def Let_def)

subsection \<open>A complete request\<close>

text \<open>
  C8. For the request text \<open>SELECT 1 AS x\<close>, with a parser that classifies it as a
  \<open>Select\<close> and a database that answers \<open>SELECT 1 AS x LIMIT 100\<close> with the column
  \<open>x\<close> and the single row \<open>1\<close>, the response is 200 and the value given to
  \<open>c.JSON\<close> is the columns \<open>["x"]\<close> and the rows \<open>[{"x": 1}]\<close>.
\<close>

theorem C8_select_one:
  assumes "bindJSON env reqBody = Some \<lparr>SQL = ''SELECT 1 AS x''\<rparr>"
    and "Parse env ''SELECT 1 AS x'' = Inr Select"
    and "Query env ''SELECT 1 AS x LIMIT 100'' =
           Inr \<lparr>columns = Inr [''x''], stream = [Inr [VInt 1]], iterErr = None\<rparr>"
  shows "response (RunQuery env reqBody) =
           \<lparr>status = 200, body = ResultBody [''x''] [Map.empty(''x'' \<mapsto> VInt 1)]\<rparr>"
proof -
  have t: "TrimSpace env (SQL \<lparr>SQL = ''SELECT 1 AS x''\<rparr>) = ''SELECT 1 AS x''"
    by (simp add: TrimSpace_def isASCII_def asciiSpace_def)
  have u: "map upperASCII ''SELECT 1 AS x'' = ''SELECT 1 AS X''"
    by code_simp
  have "ToUpper env ''SELECT 1 AS x'' = ''SELECT 1 AS X''"
    using u by (simp add: ToUpper_def isASCII_def)
  then have l: "addLimit env ''SELECT 1 AS x'' = ''SELECT 1 AS x LIMIT 100''"
    by (simp add: addLimit_def)
  have "response (RunQuery env reqBody) =
          writeRows \<lparr>columns = Inr [''x''], stream = [Inr [VInt 1]], iterErr = None\<rparr>"
    using assms(1) t _ assms(2)
  proof (rule RunQuery_writeRows)
    show "''SELECT 1 AS x'' \<noteq> []" by simp
    show "Query env (addLimit env ''SELECT 1 AS x'') =
            Inr \<lparr>columns = Inr [''x''], stream = [Inr [VInt 1]], iterErr = None\<rparr>"
      using assms(3) l by simp
  qed
  then show ?thesis
    by (simp add: writeRows_def Scan_def rowMap_def StatusOK_def)
qed

text \<open>
  The environment \<open>envSelect selectOneDB\<close> is such a parser and database.
\<close>

theorem C8_select_one_witness:
  "bindJSON (envSelect selectOneDB) ''SELECT 1 AS x'' = Some \<lparr>SQL = ''SELECT 1 AS x''\<rparr>
   \<and> Parse (envSelect selectOneDB) ''SELECT 1 AS x'' = Inr Select
   \<and> Query (envSelect selectOneDB) ''SELECT 1 AS x LIMIT 100'' =
       Inr \<lparr>columns = Inr [''x''], stream = [Inr [VInt 1]], iterErr = None\<rparr>
   \<and> response (RunQuery (envSelect selectOneDB) ''SELECT 1 AS x'') =
       \<lparr>status = 200, body = ResultBody [''x''] [Map.empty(''x'' \<mapsto> VInt 1)]\<rparr>"
proof -
  let ?E = "envSelect selectOneDB"
  have b: "bindJSON ?E ''SELECT 1 AS x'' = Some \<lparr>SQL = ''SELECT 1 AS x''\<rparr>"
    by (rule bindJSON_envSelect)
  have p: "Parse ?E ''SELECT 1 AS x'' = Inr Select"
    by (simp add: envSelect_def mkEnv_def)
  have q: "Query ?E ''SELECT 1 AS x LIMIT 100'' =
             Inr \<lparr>columns = Inr [''x''], stream = [Inr [VInt 1]], iterErr = None\<rparr>"
    by (simp add: envSelect_def mkEnv_def selectOneDB_def oneRow_def)
  show ?thesis
    using b p q C8_select_one [OF b p q] by simp
qed

end
